theory Spec2Isabelle
  imports Complex_Main
begin

section \<open>Time-series feature engineering: the notebook's cells\<close>

text \<open>
  The source is the notebook
  \<^verbatim>\<open>basic_feature_engineering_with_time_series_data_in_python.ipynb\<close>.
  Each code cell loads the temperature series, builds some columns with the
  tabular library (\<^verbatim>\<open>shift\<close>, \<^verbatim>\<open>rolling\<close>, \<^verbatim>\<open>expanding\<close>), puts them side by
  side with \<^verbatim>\<open>concat(axis=1)\<close> and names them.

  A column is a list of entries in row order. An entry is a number or NaN; NaN
  is \<open>None\<close>. Numbers are modelled as exact reals: rounding of the 64-bit
  floats of the source is not modelled.
\<close>

type_synonym column = "real option list"

type_synonym dataframe = "(string \<times> column) list"

datatype error = KeyError | ValueError | OverflowError

subsection \<open>The library calls the cells make\<close>

text \<open>
  \<^verbatim>\<open>frame.shift(periods)\<close>: every entry moves \<open>periods\<close> rows down (up when
  \<open>periods\<close> is negative); the rows left free are NaN, the entries pushed
  past the end are dropped, the length stays.
\<close>

definition shift :: "int \<Rightarrow> column \<Rightarrow> column" where
  "shift periods xs =
     (if 0 \<le> periods
      then replicate (min (nat periods) (length xs)) None
             @ take (length xs - nat periods) xs
      else drop (nat (- periods)) xs
             @ replicate (min (nat (- periods)) (length xs)) None)"

text \<open>
  \<^verbatim>\<open>frame.rolling(window=w)\<close> and \<^verbatim>\<open>frame.expanding()\<close>. At row \<open>i\<close> a fixed
  window covers the rows \<open>max(0, i + 1 - w) .. i\<close>, an expanding one the rows
  \<open>0 .. i\<close>. An aggregation counts the entries of the window that are not NaN
  and returns NaN when there are fewer than \<open>min_periods\<close> of them (and when
  there is none at all), else the statistic of those entries.
  \<open>min_periods\<close> is not passed by any cell, so it has the library's default:
  the window width for \<^verbatim>\<open>rolling\<close>, 1 for \<^verbatim>\<open>expanding\<close>.
\<close>

definition window_bounds :: "nat \<Rightarrow> nat \<Rightarrow> nat \<times> nat" where
  "window_bounds w i = (if i + 1 < w then 0 else i + 1 - w, i + 1)"

definition window_values :: "nat \<Rightarrow> column \<Rightarrow> nat \<Rightarrow> column" where
  "window_values w xs i =
     (case window_bounds w i of (start, end) \<Rightarrow> take (end - start) (drop start xs))"

definition observed :: "column \<Rightarrow> real list" where
  "observed win = [v. Some v \<leftarrow> win]"

definition aggregate :: "nat \<Rightarrow> (real list \<Rightarrow> real) \<Rightarrow> column \<Rightarrow> real option" where
  "aggregate min_periods stat win =
     (let obs = observed win
      in if length obs < max min_periods 1 then None else Some (stat obs))"

definition rolling :: "nat \<Rightarrow> (real list \<Rightarrow> real) \<Rightarrow> column \<Rightarrow> column" where
  "rolling w stat xs = map (\<lambda>i. aggregate w stat (window_values w xs i)) [0..<length xs]"

definition expanding :: "(real list \<Rightarrow> real) \<Rightarrow> column \<Rightarrow> column" where
  "expanding stat xs = map (\<lambda>i. aggregate 1 stat (take (i + 1) xs)) [0..<length xs]"

text \<open>
  The statistics the cells ask for: \<^verbatim>\<open>min()\<close>, \<^verbatim>\<open>mean()\<close>, \<^verbatim>\<open>max()\<close>. An
  aggregation applies them to a list with at least one value only, so the
  equations for the empty list are never used.
\<close>

fun minimum :: "real list \<Rightarrow> real" where
  "minimum [] = 0"
| "minimum (v # vs) = foldl min v vs"

fun maximum :: "real list \<Rightarrow> real" where
  "maximum [] = 0"
| "maximum (v # vs) = foldl max v vs"

definition mean :: "real list \<Rightarrow> real" where
  "mean vs = sum_list vs / real (length vs)"

text \<open>
  \<^verbatim>\<open>concat(frames, axis=1)\<close> joins the frames on their row index. Every frame
  of a cell has the index \<open>0 .. n - 1\<close> of its own length, so the join has the
  rows of the longest frame and a shorter column is NaN below its end.
  Assigning \<^verbatim>\<open>dataframe.columns\<close> names the columns in order.
\<close>

definition concat_axis1 :: "column list \<Rightarrow> column list" where
  "concat_axis1 cols =
     (let n = foldr max (map length cols) 0
      in map (\<lambda>c. c @ replicate (n - length c) None) cols)"

definition set_columns :: "string list \<Rightarrow> column list \<Rightarrow> dataframe" where
  "set_columns names cols = zip names cols"

text \<open>
  Reading a frame: \<^verbatim>\<open>frame[name][i]\<close> looks both up by label and raises
  KeyError on a name that is no column and on a row that does not exist.
\<close>

definition field :: "dataframe \<Rightarrow> string \<Rightarrow> nat \<Rightarrow> error + real option" where
  "field df name i =
     (case map_of df name of
        None \<Rightarrow> Inl KeyError
      | Some c \<Rightarrow> if i < length c then Inr (c ! i) else Inl KeyError)"

definition nrows :: "dataframe \<Rightarrow> nat" where
  "nrows df = foldr max (map (length \<circ> snd) df) 0"

definition iloc :: "dataframe \<Rightarrow> nat \<Rightarrow> real option list" where
  "iloc df i = map (\<lambda>(name, c). c ! i) df"

subsection \<open>The cells\<close>

text \<open>
  Each cell is a function of \<open>temps\<close>, the column \<^verbatim>\<open>DataFrame(series.values)\<close>,
  and returns the frame the cell prints the head of.

  \<^verbatim>\<open>dataframe = concat([temps.shift(1), temps], axis=1)\<close>
\<close>

definition lag1_cell :: "column \<Rightarrow> dataframe" where
  "lag1_cell temps =
     set_columns [''t-1'', ''t+1''] (concat_axis1 [shift 1 temps, temps])"

text \<open>\<^verbatim>\<open>dataframe = concat([temps.shift(3), temps.shift(2), temps.shift(1), temps], axis=1)\<close>\<close>

definition lag3_cell :: "column \<Rightarrow> dataframe" where
  "lag3_cell temps =
     set_columns [''t-3'', ''t-2'', ''t-1'', ''t+1'']
       (concat_axis1 [shift 3 temps, shift 2 temps, shift 1 temps, temps])"

text \<open>
  \<^verbatim>\<open>shifted = temps.shift(1); window = shifted.rolling(window=2); means = window.mean()\<close>
\<close>

definition rolling_mean_cell :: "column \<Rightarrow> dataframe" where
  "rolling_mean_cell temps =
     (let shifted = shift 1 temps;
          means = rolling 2 mean shifted
      in set_columns [''mean(t-2,t-1)'', ''t+1''] (concat_axis1 [means, temps]))"

text \<open>
  \<^verbatim>\<open>width = 3; shifted = temps.shift(width - 1); window = shifted.rolling(window=width)\<close>.
  The cell names the width as a variable, used for the shift and for the
  window; the model takes it as a parameter. \<open>width - 1\<close> is a subtraction of
  integers.
\<close>

definition rolling_stats_cell :: "nat \<Rightarrow> column \<Rightarrow> dataframe" where
  "rolling_stats_cell width temps =
     (let shifted = shift (int width - 1) temps
      in set_columns [''min'', ''mean'', ''max'', ''t+1'']
           (concat_axis1
              [rolling width minimum shifted, rolling width mean shifted,
               rolling width maximum shifted, temps]))"

text \<open>
  \<^verbatim>\<open>window = temps.expanding()\<close>,
  \<^verbatim>\<open>concat([window.min(), window.mean(), window.max(), temps.shift(-1)], axis=1)\<close>
\<close>

definition expanding_cell :: "column \<Rightarrow> dataframe" where
  "expanding_cell temps =
     set_columns [''min'', ''mean'', ''max'', ''t+1'']
       (concat_axis1
          [expanding minimum temps, expanding mean temps,
           expanding maximum temps, shift (- 1) temps])"

text \<open>The first five temperatures of the data set, as the notebook shows them.\<close>

definition temps5 :: column where
  "temps5 = [Some 20.7, Some 17.9, Some 18.8, Some 14.6, Some 15.8]"

text \<open>The first three of them, the example of the lag section.\<close>

definition temps3 :: column where
  "temps3 = [Some 20.7, Some 17.9, Some 18.8]"

text \<open>A series with a missing observation.\<close>

definition temps_gap :: column where
  "temps_gap = [Some 1, None, Some 3, Some 5]"

subsection \<open>What the calls of a cell refuse\<close>





subsection \<open>What the specification says a row holds\<close>

text \<open>
  These definitions follow the words of the specification, not the
  cells; the theorems below compare the cells with them.

  A statistic is taken over the defined entries of a range and is undefined
  when the range has none.
\<close>

definition skipna :: "(real list \<Rightarrow> real) \<Rightarrow> column \<Rightarrow> real option" where
  "skipna stat win = (let obs = observed win in if obs = [] then None else Some (stat obs))"

text \<open>The rolling window of row \<open>i\<close>: the rows \<open>max(0, i - W) .. i - 1\<close>.\<close>

definition spec_rolling_window :: "nat \<Rightarrow> column \<Rightarrow> nat \<Rightarrow> column" where
  "spec_rolling_window W xs i = take (i - (i - W)) (drop (i - W) xs)"

text \<open>The expanding window of row \<open>i\<close>: the rows \<open>0 .. i - 1\<close>.\<close>

definition spec_expanding_window :: "column \<Rightarrow> nat \<Rightarrow> column" where
  "spec_expanding_window xs i = take i xs"

text \<open>The target of row \<open>i\<close>: the value at \<open>i + target_offset\<close> if in range.\<close>

definition spec_target :: "int \<Rightarrow> column \<Rightarrow> nat \<Rightarrow> real option" where
  "spec_target target_offset xs i =
     (let j = int i + target_offset
      in if 0 \<le> j \<and> j < int (length xs) then xs ! nat j else None)"



section \<open>The library calls, row by row\<close>


lemma length_shift: "length (shift k xs) = length xs"
  by (auto simp: shift_def)


lemma shift_nth_down:
  "i < length xs \<Longrightarrow> shift (int k) xs ! i = (if k \<le> i then xs ! (i - k) else None)"
  by (auto simp: shift_def nth_append)

lemma shift_nth_up:
  assumes i: "i < length xs"
  shows "shift (- int k) xs ! i = (if i + k < length xs then xs ! (i + k) else None)"
proof (cases "k = 0")
  case True
  with i show ?thesis by (simp add: shift_def)
next
  case False
  have s: "shift (- int k) xs = drop k xs @ replicate (min k (length xs)) None"
    using False by (simp add: shift_def)
  show ?thesis
  proof (cases "i + k < length xs")
    case True
    then have "i < length xs - k" by arith
    with True show ?thesis by (simp add: s nth_append add.commute)
  next
    case False
    with i have "i - (length xs - k) < min k (length xs)" and "\<not> i < length xs - k"
      by arith+
    with False show ?thesis by (simp add: s nth_append)
  qed
qed

lemma length_rolling: "length (rolling w stat xs) = length xs"
  by (simp add: rolling_def)

lemma length_expanding: "length (expanding stat xs) = length xs"
  by (simp add: expanding_def)

lemma rolling_nth:
  "i < length xs \<Longrightarrow> rolling w stat xs ! i = aggregate w stat (window_values w xs i)"
  by (simp add: rolling_def)

lemma expanding_nth:
  "i < length xs \<Longrightarrow> expanding stat xs ! i = aggregate 1 stat (take (i + 1) xs)"
  by (simp add: expanding_def)

lemma observed_Nil: "observed [] = []"
  by (simp add: observed_def)

lemma observed_Cons:
  "observed (x # win) = (case x of None \<Rightarrow> observed win | Some v \<Rightarrow> v # observed win)"
  by (cases x) (simp_all add: observed_def)

lemma length_observed_le: "length (observed win) \<le> length win"
  by (induction win) (auto simp: observed_Nil observed_Cons split: option.splits)

lemma observed_defined: "None \<notin> set win \<Longrightarrow> observed win = map the win"
proof (induction win)
  case Nil
  show ?case by (simp add: observed_Nil)
next
  case (Cons x win)
  then obtain v where "x = Some v" by (cases x) auto
  with Cons show ?case by (simp add: observed_Cons)
qed

lemma length_observed_less:
  "None \<in> set win \<Longrightarrow> length (observed win) < length win"
proof (induction win)
  case Nil
  then show ?case by simp
next
  case (Cons x win)
  show ?case
  proof (cases x)
    case None
    have "length (observed win) \<le> length win" by (rule length_observed_le)
    with None show ?thesis by (simp add: observed_Cons)
  next
    case (Some v)
    with Cons show ?thesis by (simp add: observed_Cons)
  qed
qed

lemma aggregate_full:
  assumes "1 \<le> w" and "length win \<le> w"
  shows "aggregate w stat win =
           (if length win = w \<and> None \<notin> set win then Some (stat (map the win)) else None)"
proof (cases "length win = w \<and> None \<notin> set win")
  case True
  then have "observed win = map the win" by (simp add: observed_defined)
  with True assms show ?thesis by (simp add: aggregate_def)
next
  case False
  have "length (observed win) < w"
  proof (cases "None \<in> set win")
    case True
    then have "length (observed win) < length win" by (rule length_observed_less)
    with assms show ?thesis by simp
  next
    case False
    with \<open>\<not> (length win = w \<and> None \<notin> set win)\<close> assms have "length win < w" by simp
    moreover have "length (observed win) \<le> length win" by (rule length_observed_le)
    ultimately show ?thesis by simp
  qed
  with False assms show ?thesis by (simp add: aggregate_def)
qed

lemma aggregate_skipna:
  "aggregate 1 stat win =
     (let obs = observed win in if obs = [] then None else Some (stat obs))"
  by (cases "observed win") (simp_all add: aggregate_def)

lemma window_values_eq:
  "window_values w xs i = take (min w (i + 1)) (drop (i + 1 - w) xs)"
  by (auto simp: window_values_def window_bounds_def min_def)

lemma length_window_values: "length (window_values w xs i) \<le> w"
  by (simp add: window_values_eq)


lemma window_values_full:
  assumes "w \<le> i + 1" and "i < length ys"
  shows "length (window_values w ys i) = w"
    and "j < w \<Longrightarrow> window_values w ys i ! j = ys ! (i + 1 - w + j)"
proof -
  from assms have m: "min w (i + 1) = w" and l: "w \<le> length ys - (i + 1 - w)"
    by arith+
  show "length (window_values w ys i) = w"
    by (simp only: window_values_eq m length_take length_drop) (use l in simp)
  show "window_values w ys i ! j = ys ! (i + 1 - w + j)" if "j < w"
    using that l by (simp only: window_values_eq m) simp
qed

lemma window_shift_defined:
  assumes "i < length xs" and "w + s \<le> i + 1"
  shows "window_values w (shift (int s) xs) i = take w (drop (i + 1 - w - s) xs)"
proof (rule nth_equalityI)
  from assms have wi: "w \<le> i + 1" and il: "i < length (shift (int s) xs)"
    by (simp_all add: length_shift)
  from assms show len: "length (window_values w (shift (int s) xs) i)
      = length (take w (drop (i + 1 - w - s) xs))"
    by (simp add: window_values_full(1) [OF wi il])
  fix j
  assume "j < length (window_values w (shift (int s) xs) i)"
  then have j: "j < w" by (simp add: window_values_full(1) [OF wi il])
  with assms have a: "i + 1 - w + j < length xs" and b: "s \<le> i + 1 - w + j"
    and c: "i + 1 - w + j - s = i + 1 - w - s + j"
    by arith+
  have "window_values w (shift (int s) xs) i ! j = shift (int s) xs ! (i + 1 - w + j)"
    using j by (rule window_values_full(2) [OF wi il])
  also have "\<dots> = xs ! (i + 1 - w - s + j)"
    using a b c by (simp add: shift_nth_down)
  also have "\<dots> = take w (drop (i + 1 - w - s) xs) ! j"
    using j a c by simp
  finally show "window_values w (shift (int s) xs) i ! j
      = take w (drop (i + 1 - w - s) xs) ! j" .
qed

lemma window_shift_undefined:
  assumes "i < length xs" and "1 \<le> w" and "w \<le> i + 1" and "i + 1 < w + s"
  shows "None \<in> set (window_values w (shift (int s) xs) i)"
proof -
  from assms have il: "i < length (shift (int s) xs)" by (simp add: length_shift)
  have len: "length (window_values w (shift (int s) xs) i) = w"
    by (rule window_values_full(1) [OF assms(3) il])
  from assms have z: "0 < w" by simp
  have "window_values w (shift (int s) xs) i ! 0 = shift (int s) xs ! (i + 1 - w + 0)"
    using z by (rule window_values_full(2) [OF assms(3) il])
  also have "\<dots> = None"
  proof -
    from assms have "i + 1 - w + 0 < length xs" and "\<not> s \<le> i + 1 - w + 0" by arith+
    then show ?thesis by (simp only: shift_nth_down if_False)
  qed
  finally have "window_values w (shift (int s) xs) i ! 0 = None" .
  moreover from len z have "0 < length (window_values w (shift (int s) xs) i)" by simp
  ultimately show ?thesis by (metis nth_mem)
qed

lemma rolling_shift_nth:
  assumes "i < length xs" and "1 \<le> w"
  shows "rolling w stat (shift (int s) xs) ! i =
           (let win = take w (drop (i + 1 - w - s) xs)
            in if w + s \<le> i + 1 \<and> None \<notin> set win
               then Some (stat (map the win)) else None)"
proof -
  let ?win = "window_values w (shift (int s) xs) i"
  have r: "rolling w stat (shift (int s) xs) ! i = aggregate w stat ?win"
    using assms by (simp add: rolling_nth length_shift)
  have agg: "aggregate w stat ?win =
      (if length ?win = w \<and> None \<notin> set ?win then Some (stat (map the ?win)) else None)"
    using assms(2) length_window_values by (rule aggregate_full)
  show ?thesis
  proof (cases "w + s \<le> i + 1")
    case True
    define T where "T = take w (drop (i + 1 - w - s) xs)"
    from True have eq: "?win = T"
      unfolding T_def by (rule window_shift_defined [OF assms(1)])
    from True assms have lenT: "length T = w" by (simp add: T_def)
    have "aggregate w stat T =
        (if length T = w \<and> None \<notin> set T then Some (stat (map the T)) else None)"
      using assms(2) by (rule aggregate_full) (simp add: lenT)
    then have "aggregate w stat ?win = (if None \<notin> set T then Some (stat (map the T)) else None)"
      by (simp only: eq lenT simp_thms)
    with True show ?thesis by (simp only: r Let_def T_def simp_thms)
  next
    case False
    have "aggregate w stat ?win = None"
    proof (cases "w \<le> i + 1")
      case True
      with False assms have "None \<in> set ?win"
        by (intro window_shift_undefined) simp_all
      then show ?thesis by (simp add: agg)
    next
      case False
      then have "length ?win \<noteq> w" by (simp add: window_values_eq)
      then show ?thesis by (simp add: agg)
    qed
    with False show ?thesis by (simp add: r Let_def)
  qed
qed

lemma concat_axis1_same:
  assumes "\<forall>c \<in> set cols. length c = n"
  shows "concat_axis1 cols = cols"
proof -
  have "foldr max (map length cols) 0 - length c = 0" if "c \<in> set cols" for c
  proof -
    have "foldr max (map length cs) 0 \<le> n" if "\<forall>c \<in> set cs. length c = n" for cs :: "column list"
      using that by (induction cs) auto
    with assms that show ?thesis by auto
  qed
  then show ?thesis by (simp add: concat_axis1_def map_idI)
qed

section \<open>The cells, column by column\<close>


lemma lag1_cell_eq: "lag1_cell temps = [(''t-1'', shift 1 temps), (''t+1'', temps)]"
  by (simp add: lag1_cell_def set_columns_def length_shift
      concat_axis1_same [where n = "length temps"])

lemma lag3_cell_eq:
  "lag3_cell temps =
     [(''t-3'', shift 3 temps), (''t-2'', shift 2 temps), (''t-1'', shift 1 temps),
      (''t+1'', temps)]"
  by (simp add: lag3_cell_def set_columns_def length_shift
      concat_axis1_same [where n = "length temps"])

lemma rolling_mean_cell_eq:
  "rolling_mean_cell temps =
     [(''mean(t-2,t-1)'', rolling 2 mean (shift 1 temps)), (''t+1'', temps)]"
  by (simp add: rolling_mean_cell_def set_columns_def length_shift length_rolling
      concat_axis1_same [where n = "length temps"])

lemma rolling_stats_cell_eq:
  "rolling_stats_cell width temps =
     [(''min'', rolling width minimum (shift (int width - 1) temps)),
      (''mean'', rolling width mean (shift (int width - 1) temps)),
      (''max'', rolling width maximum (shift (int width - 1) temps)),
      (''t+1'', temps)]"
  by (simp add: rolling_stats_cell_def Let_def set_columns_def length_shift length_rolling
      concat_axis1_same [where n = "length temps"])

lemma expanding_cell_eq:
  "expanding_cell temps =
     [(''min'', expanding minimum temps), (''mean'', expanding mean temps),
      (''max'', expanding maximum temps), (''t+1'', shift (- 1) temps)]"
  by (simp add: expanding_cell_def set_columns_def length_shift length_expanding
      concat_axis1_same [where n = "length temps"])

lemma shift_nth_int:
  assumes "i < length xs"
  shows "shift (- d) xs ! i = spec_target d xs i"
proof (cases "0 \<le> d")
  case True
  then obtain k where d: "d = int k" using nonneg_int_cases by blast
  have "shift (- int k) xs ! i = (if i + k < length xs then xs ! (i + k) else None)"
    using assms by (rule shift_nth_up)
  moreover have "nat (int i + int k) = i + k" by simp
  ultimately show ?thesis
    by (simp add: d spec_target_def Let_def del: of_nat_add)
next
  case False
  then obtain k where d: "d = - int k" and k: "0 < k"
    by (metis neg_int_cases not_le)
  have "shift (int k) xs ! i = (if k \<le> i then xs ! (i - k) else None)"
    using assms by (rule shift_nth_down)
  moreover have "nat (int i - int k) = i - k" by simp
  moreover have "(0 \<le> int i - int k) = (k \<le> i)" by auto
  moreover have "int i - int k < int (length xs)" using assms by simp
  ultimately show ?thesis
    by (simp add: d spec_target_def Let_def)
qed

lemma rolling_width_nth:
  assumes "1 \<le> W" and "i < length temps"
  shows "rolling W stat (shift (int W - 1) temps) ! i =
           (let win = take W (drop (i + 2 - 2 * W) temps)
            in if 2 * W \<le> i + 2 \<and> None \<notin> set win
               then Some (stat (map the win)) else None)"
proof -
  from assms(1) have s: "int W - 1 = int (W - 1)" by simp
  from assms(1) have d: "i + 1 - W - (W - 1) = i + 2 - 2 * W"
    and c: "(W + (W - 1) \<le> i + 1) = (2 * W \<le> i + 2)" by arith+
  show ?thesis
    unfolding s using rolling_shift_nth [OF assms(2) assms(1), of stat "W - 1"]
    by (simp only: d c)
qed

lemma expanding_nth_skipna:
  "i < length xs \<Longrightarrow> expanding stat xs ! i = skipna stat (take (i + 1) xs)"
  by (simp only: expanding_nth aggregate_skipna skipna_def)


lemma take_agree_nth:
  assumes "take n ys = take n xs" and "j < n"
  shows "ys ! j = xs ! j"
proof -
  from assms(2) have "ys ! j = take n ys ! j" by simp
  also from assms have "\<dots> = take n xs ! j" by simp
  also from assms(2) have "\<dots> = xs ! j" by simp
  finally show ?thesis .
qed

lemma take_agree_window:
  assumes "take n ys = take n xs" and "d + w \<le> n"
  shows "take w (drop d ys) = take w (drop d xs)"
proof -
  have "take w (drop d zs) = take w (drop d (take n zs))" for zs :: "'a list"
    using assms(2) by (simp add: drop_take min_def)
  from this [of ys] this [of xs] assms(1) show ?thesis by simp
qed

lemma shift_agree:
  assumes "length ys = length xs" and "i < length xs" and "take i ys = take i xs"
    and "1 \<le> k"
  shows "shift (int k) ys ! i = shift (int k) xs ! i"
proof (cases "k \<le> i")
  case True
  with assms(4) have "i - k < i" by arith
  with assms(3) have "ys ! (i - k) = xs ! (i - k)" by (rule take_agree_nth)
  with True assms show ?thesis by (simp add: shift_nth_down)
next
  case False
  with assms show ?thesis by (simp add: shift_nth_down)
qed

lemma rolling_shift_agree:
  assumes "length ys = length xs" and "i < length xs" and "take i ys = take i xs"
    and "1 \<le> w" and "1 \<le> s"
  shows "rolling w stat (shift (int s) ys) ! i = rolling w stat (shift (int s) xs) ! i"
proof (cases "w + s \<le> i + 1")
  case True
  with assms(5) have "i + 1 - w - s + w \<le> i" by arith
  with assms(3) have "take w (drop (i + 1 - w - s) ys) = take w (drop (i + 1 - w - s) xs)"
    by (rule take_agree_window)
  with assms show ?thesis by (simp add: rolling_shift_nth)
next
  case False
  with assms show ?thesis by (simp add: rolling_shift_nth)
qed

lemma expanding_agree:
  assumes "length ys = length xs" and "i < length xs"
    and "take (i + 1) ys = take (i + 1) xs"
  shows "expanding stat ys ! i = expanding stat xs ! i"
  using assms by (simp add: expanding_nth)

section \<open>Lag features\<close>

text \<open>
  Claim C4. For every sequence, every lag \<open>k\<close> and every row \<open>i\<close>, the lag
  column \<^verbatim>\<open>temps.shift(k)\<close> holds at row \<open>i\<close> the value of the sequence at
  \<open>i - k\<close> when \<open>k \<le> i\<close>, and NaN when \<open>i < k\<close>: nothing wraps around, nothing
  is clamped to the first row, no default is put in. The columns \<open>t-1\<close>,
  \<open>t-2\<close>, \<open>t-3\<close> of the two lag cells are these columns for \<open>k = 1, 2, 3\<close>.
\<close>

theorem lag_fields:
  assumes "i < length temps"
  shows "shift (int k) temps ! i = (if k \<le> i then temps ! (i - k) else None)
       \<and> field (lag1_cell temps) ''t-1'' i = Inr (if 1 \<le> i then temps ! (i - 1) else None)
       \<and> field (lag3_cell temps) ''t-3'' i = Inr (if 3 \<le> i then temps ! (i - 3) else None)
       \<and> field (lag3_cell temps) ''t-2'' i = Inr (if 2 \<le> i then temps ! (i - 2) else None)
       \<and> field (lag3_cell temps) ''t-1'' i = Inr (if 1 \<le> i then temps ! (i - 1) else None)"
proof -
  have k: "shift (int k) temps ! i = (if k \<le> i then temps ! (i - k) else None)" for k
    using assms by (rule shift_nth_down)
  from k [of 1] have k1: "shift 1 temps ! i = (if 1 \<le> i then temps ! (i - 1) else None)"
    by simp
  from k [of 2] have k2: "shift 2 temps ! i = (if 2 \<le> i then temps ! (i - 2) else None)"
    by simp
  from k [of 3] have k3: "shift 3 temps ! i = (if 3 \<le> i then temps ! (i - 3) else None)"
    by simp
  have "field (lag1_cell temps) ''t-1'' i = Inr (shift 1 temps ! i)"
    using assms by (simp add: field_def lag1_cell_eq length_shift)
  moreover have "field (lag3_cell temps) ''t-3'' i = Inr (shift 3 temps ! i)"
    using assms by (simp add: field_def lag3_cell_eq length_shift)
  moreover have "field (lag3_cell temps) ''t-2'' i = Inr (shift 2 temps ! i)"
    using assms by (simp add: field_def lag3_cell_eq length_shift)
  moreover have "field (lag3_cell temps) ''t-1'' i = Inr (shift 1 temps ! i)"
    using assms by (simp add: field_def lag3_cell_eq length_shift)
  ultimately show ?thesis
    by (simp only: k k1 k2 k3 simp_thms)
qed

theorem lag_fields_witness:
  "shift (int 3) temps5 ! 4 = Some 17.9
   \<and> shift (int 3) temps5 ! 2 = None
   \<and> field (lag1_cell temps5) ''t-1'' 4 = Inr (Some 14.6)
   \<and> field (lag3_cell temps5) ''t-3'' 4 = Inr (Some 17.9)
   \<and> field (lag3_cell temps5) ''t-2'' 4 = Inr (Some 18.8)
   \<and> field (lag3_cell temps5) ''t-1'' 4 = Inr (Some 14.6)
   \<and> field (lag3_cell temps5) ''t-3'' 2 = Inr None"
proof -
  have h4: "4 < length temps5" and h2: "2 < length temps5"
    by (simp_all add: temps5_def)
  from lag_fields [OF h4, of 3] lag_fields [OF h2, of 3] show ?thesis
    by (simp add: temps5_def)
qed

section \<open>Rolling window statistics\<close>

text \<open>
  Claim C2. With width 3 on the values 20.7, 17.9, 18.8, 14.6, 15.8 the row
  at index 4 of the rolling cell reports min 17.9, max 20.7 and mean
  19.133333 within one millionth (it is 287/15), taken over the window
  20.7, 17.9, 18.8; the three statistics of the rows 0 to 3 are undefined.
\<close>

theorem rolling_width3_example:
  "window_values 3 (shift (int 3 - 1) temps5) 4 = [Some 20.7, Some 17.9, Some 18.8]
   \<and> field (rolling_stats_cell 3 temps5) ''min'' 4 = Inr (Some 17.9)
   \<and> field (rolling_stats_cell 3 temps5) ''max'' 4 = Inr (Some 20.7)
   \<and> field (rolling_stats_cell 3 temps5) ''mean'' 4 = Inr (Some (287 / 15))
   \<and> \<bar>287 / 15 - 19.133333\<bar> < (1 / 10 ^ 6 :: real)
   \<and> map (field (rolling_stats_cell 3 temps5) ''min'') [0, 1, 2, 3]
         = [Inr None, Inr None, Inr None, Inr None]
   \<and> map (field (rolling_stats_cell 3 temps5) ''mean'') [0, 1, 2, 3]
         = [Inr None, Inr None, Inr None, Inr None]
   \<and> map (field (rolling_stats_cell 3 temps5) ''max'') [0, 1, 2, 3]
         = [Inr None, Inr None, Inr None, Inr None]"
proof -
  have w: "window_values 3 (shift (int 3 - 1) temps5) 4 = [Some 20.7, Some 17.9, Some 18.8]"
    by code_simp
  have mn: "field (rolling_stats_cell 3 temps5) ''min'' 4 = Inr (Some 17.9)"
    by code_simp
  have mx: "field (rolling_stats_cell 3 temps5) ''max'' 4 = Inr (Some 20.7)"
    by code_simp
  have me: "field (rolling_stats_cell 3 temps5) ''mean'' 4 = Inr (Some (287 / 15))"
    by code_simp
  have tol: "\<bar>287 / 15 - 19.133333\<bar> < (1 / 10 ^ 6 :: real)"
    by simp
  have e1: "map (field (rolling_stats_cell 3 temps5) ''min'') [0, 1, 2, 3]
      = [Inr None, Inr None, Inr None, Inr None]"
    by code_simp
  have e2: "map (field (rolling_stats_cell 3 temps5) ''mean'') [0, 1, 2, 3]
      = [Inr None, Inr None, Inr None, Inr None]"
    by code_simp
  have e3: "map (field (rolling_stats_cell 3 temps5) ''max'') [0, 1, 2, 3]
      = [Inr None, Inr None, Inr None, Inr None]"
    by code_simp
  from w mn mx me tol e1 e2 e3 show ?thesis by (intro conjI)
qed

text \<open>
  Claim C1 reads: the rolling fields of row \<open>i\<close> are computed over the values at
  the rows \<open>max(0, i - W) .. i - 1\<close>. With width 3 that is 17.9, 18.8, 14.6 for
  row 4, with minimum 14.6; the cell reports 17.9, the minimum of the rows 0
  to 2.
\<close>

theorem rolling_window_extent_counterexample:
  "field (rolling_stats_cell 3 temps5) ''min'' 4 = Inr (Some 17.9)
   \<and> spec_rolling_window 3 temps5 4 = [Some 17.9, Some 18.8, Some 14.6]
   \<and> skipna minimum (spec_rolling_window 3 temps5 4) = Some 14.6
   \<and> field (rolling_stats_cell 3 temps5) ''min'' 4
        \<noteq> Inr (skipna minimum (spec_rolling_window 3 temps5 4))"
proof -
  have a: "field (rolling_stats_cell 3 temps5) ''min'' 4 = Inr (Some 17.9)"
    by code_simp
  have b: "spec_rolling_window 3 temps5 4 = [Some 17.9, Some 18.8, Some 14.6]"
    by code_simp
  have c: "skipna minimum (spec_rolling_window 3 temps5 4) = Some 14.6"
    by code_simp
  from a b c show ?thesis by simp
qed

text \<open>
  Claim C1, as the cells have it. The cell of width \<open>W\<close> shifts by \<open>W - 1\<close> and
  rolls over \<open>W\<close> rows, so the fields of row \<open>i\<close> are computed over the \<open>W\<close>
  values at the rows \<open>i - 2W + 2 .. i - W + 1\<close>, and are undefined when these
  rows do not all exist (\<open>i < 2W - 2\<close>) or one of the values is undefined. In
  the cell with shift 1 and window 2 these are the rows \<open>i - 2 .. i - 1\<close>, the
  two values just before row \<open>i\<close>.
\<close>

theorem rolling_cells_window:
  assumes "1 \<le> W" and "i < length temps"
  shows "field (rolling_stats_cell W temps) ''min'' i =
           Inr (let win = take W (drop (i + 2 - 2 * W) temps)
                in if 2 * W \<le> i + 2 \<and> None \<notin> set win
                   then Some (minimum (map the win)) else None)
       \<and> field (rolling_stats_cell W temps) ''mean'' i =
           Inr (let win = take W (drop (i + 2 - 2 * W) temps)
                in if 2 * W \<le> i + 2 \<and> None \<notin> set win
                   then Some (mean (map the win)) else None)
       \<and> field (rolling_stats_cell W temps) ''max'' i =
           Inr (let win = take W (drop (i + 2 - 2 * W) temps)
                in if 2 * W \<le> i + 2 \<and> None \<notin> set win
                   then Some (maximum (map the win)) else None)
       \<and> field (rolling_mean_cell temps) ''mean(t-2,t-1)'' i =
           Inr (let win = take 2 (drop (i - 2) temps)
                in if 2 \<le> i \<and> None \<notin> set win
                   then Some (mean (map the win)) else None)"
proof -
  have r: "rolling W stat (shift (int W - 1) temps) ! i =
      (let win = take W (drop (i + 2 - 2 * W) temps)
       in if 2 * W \<le> i + 2 \<and> None \<notin> set win
          then Some (stat (map the win)) else None)" for stat
    using assms by (rule rolling_width_nth)
  have f: "field (rolling_stats_cell W temps) ''min'' i
        = Inr (rolling W minimum (shift (int W - 1) temps) ! i)"
      "field (rolling_stats_cell W temps) ''mean'' i
        = Inr (rolling W mean (shift (int W - 1) temps) ! i)"
      "field (rolling_stats_cell W temps) ''max'' i
        = Inr (rolling W maximum (shift (int W - 1) temps) ! i)"
    using assms(2)
    by (simp_all add: field_def rolling_stats_cell_eq length_rolling length_shift)
  have g: "field (rolling_mean_cell temps) ''mean(t-2,t-1)'' i
        = Inr (rolling 2 mean (shift 1 temps) ! i)"
    using assms(2)
    by (simp add: field_def rolling_mean_cell_eq length_rolling length_shift)
  have "rolling 2 mean (shift (int 1) temps) ! i =
      (let win = take 2 (drop (i + 1 - 2 - 1) temps)
       in if 2 + 1 \<le> i + 1 \<and> None \<notin> set win
          then Some (mean (map the win)) else None)"
    using assms(2) by (rule rolling_shift_nth) simp
  moreover have "i + 1 - 2 - 1 = i - 2" and "((2::nat) + 1 \<le> i + 1) = (2 \<le> i)"
    by arith+
  ultimately have m: "rolling 2 mean (shift 1 temps) ! i =
      (let win = take 2 (drop (i - 2) temps)
       in if 2 \<le> i \<and> None \<notin> set win
          then Some (mean (map the win)) else None)"
    by (simp only: of_nat_1)
  show ?thesis
    by (simp only: f g r m simp_thms)
qed

theorem rolling_cells_window_witness:
  "field (rolling_stats_cell 3 temps5) ''min'' 4 = Inr (Some (minimum [20.7, 17.9, 18.8]))
   \<and> field (rolling_stats_cell 3 temps5) ''mean'' 4 = Inr (Some (mean [20.7, 17.9, 18.8]))
   \<and> field (rolling_stats_cell 3 temps5) ''max'' 4 = Inr (Some (maximum [20.7, 17.9, 18.8]))
   \<and> field (rolling_mean_cell temps5) ''mean(t-2,t-1)'' 4 = Inr (Some (mean [18.8, 14.6]))
   \<and> field (rolling_stats_cell 3 temps5) ''min'' 3 = Inr None
   \<and> field (rolling_mean_cell temps5) ''mean(t-2,t-1)'' 1 = Inr None"
proof -
  have w: "(1::nat) \<le> 3" by simp
  have h4: "4 < length temps5" and h3: "3 < length temps5" and h1: "1 < length temps5"
    by (simp_all add: temps5_def)
  from rolling_cells_window [OF w h4] rolling_cells_window [OF w h3]
    rolling_cells_window [OF w h1]
  show ?thesis
    by (simp add: temps5_def Let_def)
qed

section \<open>Undefined entries in a window\<close>

text \<open>
  Claim C3 reads: every rolling or expanding statistic is computed over the
  defined values of its range, and is undefined only when there is none. In
  the cell with shift 1 and window 2, row 3 of the series 1, NaN, 3, 5 has the
  range NaN, 3 with mean 3 over its one defined value, and row 1 of the
  temperatures has the range 20.7; the cell reports NaN for both.
\<close>

theorem rolling_skipna_counterexample:
  "field (rolling_mean_cell temps_gap) ''mean(t-2,t-1)'' 3 = Inr None
   \<and> spec_rolling_window 2 temps_gap 3 = [None, Some 3]
   \<and> skipna mean (spec_rolling_window 2 temps_gap 3) = Some 3
   \<and> field (rolling_mean_cell temps5) ''mean(t-2,t-1)'' 1 = Inr None
   \<and> spec_rolling_window 2 temps5 1 = [Some 20.7]
   \<and> skipna mean (spec_rolling_window 2 temps5 1) = Some 20.7"
proof -
  have a: "field (rolling_mean_cell temps_gap) ''mean(t-2,t-1)'' 3 = Inr None"
    by code_simp
  have b: "spec_rolling_window 2 temps_gap 3 = [None, Some 3]"
    by code_simp
  have c: "skipna mean (spec_rolling_window 2 temps_gap 3) = Some 3"
    by code_simp
  have d: "field (rolling_mean_cell temps5) ''mean(t-2,t-1)'' 1 = Inr None"
    by code_simp
  have e: "spec_rolling_window 2 temps5 1 = [Some 20.7]"
    by code_simp
  have f: "skipna mean (spec_rolling_window 2 temps5 1) = Some 20.7"
    by code_simp
  from a b c d e f show ?thesis by (intro conjI)
qed

text \<open>
  Claim C3, as the cells have it. An expanding statistic of row \<open>i\<close> is
  computed over the defined values among the rows \<open>0 .. i\<close> only: undefined
  entries are left out and never count as 0, the statistic is undefined when
  no value is defined, and the mean divides by the number of defined values.
  A rolling statistic of width \<open>W\<close> is defined only when its window holds \<open>W\<close>
  rows and all of them are defined, and is then the statistic of these \<open>W\<close>
  values (the mean divides by \<open>W\<close>, which is then the number of defined
  values); with a shorter window or an undefined entry in it, it is undefined.
\<close>

theorem window_statistics_defined_values:
  assumes "1 \<le> W" and "i < length temps"
  shows "field (expanding_cell temps) ''mean'' i =
           Inr (let obs = observed (take (i + 1) temps)
                in if obs = [] then None else Some (sum_list obs / real (length obs)))
       \<and> field (expanding_cell temps) ''min'' i =
           Inr (let obs = observed (take (i + 1) temps)
                in if obs = [] then None else Some (minimum obs))
       \<and> field (expanding_cell temps) ''max'' i =
           Inr (let obs = observed (take (i + 1) temps)
                in if obs = [] then None else Some (maximum obs))
       \<and> field (rolling_stats_cell W temps) ''mean'' i =
           Inr (let win = window_values W (shift (int W - 1) temps) i
                in if length win = W \<and> None \<notin> set win
                   then Some (sum_list (map the win) / real W) else None)
       \<and> field (rolling_stats_cell W temps) ''min'' i =
           Inr (let win = window_values W (shift (int W - 1) temps) i
                in if length win = W \<and> None \<notin> set win
                   then Some (minimum (map the win)) else None)
       \<and> field (rolling_stats_cell W temps) ''max'' i =
           Inr (let win = window_values W (shift (int W - 1) temps) i
                in if length win = W \<and> None \<notin> set win
                   then Some (maximum (map the win)) else None)
       \<and> field (rolling_mean_cell temps) ''mean(t-2,t-1)'' i =
           Inr (let win = window_values 2 (shift 1 temps) i
                in if length win = 2 \<and> None \<notin> set win
                   then Some (sum_list (map the win) / 2) else None)"
proof -
  have e: "expanding stat temps ! i =
      (let obs = observed (take (i + 1) temps) in if obs = [] then None else Some (stat obs))"
    for stat
    using assms(2) by (simp only: expanding_nth aggregate_skipna)
  have fe: "field (expanding_cell temps) ''mean'' i = Inr (expanding mean temps ! i)"
      "field (expanding_cell temps) ''min'' i = Inr (expanding minimum temps ! i)"
      "field (expanding_cell temps) ''max'' i = Inr (expanding maximum temps ! i)"
    using assms(2) by (simp_all add: field_def expanding_cell_eq length_expanding)
  have r: "rolling w stat (shift s temps) ! i =
      (let win = window_values w (shift s temps) i
       in if length win = w \<and> None \<notin> set win then Some (stat (map the win)) else None)"
    if "1 \<le> w" for w stat s
  proof -
    have "rolling w stat (shift s temps) ! i
        = aggregate w stat (window_values w (shift s temps) i)"
      using assms(2) by (simp add: rolling_nth length_shift)
    also have "\<dots> = (if length (window_values w (shift s temps) i) = w
          \<and> None \<notin> set (window_values w (shift s temps) i)
        then Some (stat (map the (window_values w (shift s temps) i))) else None)"
      using that length_window_values by (rule aggregate_full)
    finally show ?thesis by (simp only: Let_def)
  qed
  have fr: "field (rolling_stats_cell W temps) ''mean'' i
        = Inr (rolling W mean (shift (int W - 1) temps) ! i)"
      "field (rolling_stats_cell W temps) ''min'' i
        = Inr (rolling W minimum (shift (int W - 1) temps) ! i)"
      "field (rolling_stats_cell W temps) ''max'' i
        = Inr (rolling W maximum (shift (int W - 1) temps) ! i)"
      "field (rolling_mean_cell temps) ''mean(t-2,t-1)'' i
        = Inr (rolling 2 mean (shift 1 temps) ! i)"
    using assms(2)
    by (simp_all add: field_def rolling_stats_cell_eq rolling_mean_cell_eq
        length_rolling length_shift)
  have two: "(1::nat) \<le> 2" by simp
  have c1: "field (expanding_cell temps) ''mean'' i =
      Inr (let obs = observed (take (i + 1) temps)
           in if obs = [] then None else Some (sum_list obs / real (length obs)))"
    unfolding fe e by (simp add: Let_def mean_def)
  have c2: "field (expanding_cell temps) ''min'' i =
      Inr (let obs = observed (take (i + 1) temps)
           in if obs = [] then None else Some (minimum obs))"
    unfolding fe e by (rule refl)
  have c3: "field (expanding_cell temps) ''max'' i =
      Inr (let obs = observed (take (i + 1) temps)
           in if obs = [] then None else Some (maximum obs))"
    unfolding fe e by (rule refl)
  have c4: "field (rolling_stats_cell W temps) ''mean'' i =
      Inr (let win = window_values W (shift (int W - 1) temps) i
           in if length win = W \<and> None \<notin> set win
              then Some (sum_list (map the win) / real W) else None)"
    unfolding fr r [OF assms(1)] by (simp add: Let_def mean_def)
  have c5: "field (rolling_stats_cell W temps) ''min'' i =
      Inr (let win = window_values W (shift (int W - 1) temps) i
           in if length win = W \<and> None \<notin> set win
              then Some (minimum (map the win)) else None)"
    unfolding fr r [OF assms(1)] by (rule refl)
  have c6: "field (rolling_stats_cell W temps) ''max'' i =
      Inr (let win = window_values W (shift (int W - 1) temps) i
           in if length win = W \<and> None \<notin> set win
              then Some (maximum (map the win)) else None)"
    unfolding fr r [OF assms(1)] by (rule refl)
  have c7: "field (rolling_mean_cell temps) ''mean(t-2,t-1)'' i =
      Inr (let win = window_values 2 (shift 1 temps) i
           in if length win = 2 \<and> None \<notin> set win
              then Some (sum_list (map the win) / 2) else None)"
    unfolding fr r [OF two] by (simp add: Let_def mean_def)
  from c1 c2 c3 c4 c5 c6 c7 show ?thesis by (intro conjI)
qed

theorem window_statistics_defined_values_witness:
  "field (expanding_cell [None, Some 1, None, Some 3]) ''mean'' 3 = Inr (Some 2)
   \<and> field (expanding_cell [None, Some 1, None, Some 3]) ''min'' 3 = Inr (Some 1)
   \<and> field (expanding_cell [None, Some 1, None, Some 3]) ''max'' 3 = Inr (Some 3)
   \<and> field (expanding_cell [None, Some 1, None, Some 3]) ''mean'' 0 = Inr None
   \<and> field (rolling_stats_cell 2 [Some 1, Some 4, None, Some 3]) ''mean'' 2 = Inr (Some (5 / 2))
   \<and> field (rolling_stats_cell 2 [Some 1, Some 4, None, Some 3]) ''mean'' 3 = Inr None
   \<and> field (rolling_mean_cell [Some 1, Some 4, None, Some 3]) ''mean(t-2,t-1)'' 2
        = Inr (Some (5 / 2))
   \<and> field (rolling_mean_cell [Some 1, Some 4, None, Some 3]) ''mean(t-2,t-1)'' 3 = Inr None"
proof -
  have w: "(1::nat) \<le> 2" by simp
  have h3: "3 < length [None, Some 1, None, Some (3::real)]"
    and h0: "0 < length [None, Some 1, None, Some (3::real)]"
    and g2: "2 < length [Some 1, Some 4, None, Some (3::real)]"
    and g3: "3 < length [Some 1, Some 4, None, Some (3::real)]"
    by simp_all
  have v2: "window_values 2 (shift (int 2 - 1) [Some 1, Some 4, None, Some 3]) 2
      = [Some 1, Some 4]"
    and v3: "window_values 2 (shift (int 2 - 1) [Some 1, Some 4, None, Some 3]) 3
      = [Some 4, None]"
    and u2: "window_values 2 (shift 1 [Some 1, Some 4, None, Some 3]) 2
      = [Some 1, Some 4]"
    and u3: "window_values 2 (shift 1 [Some 1, Some 4, None, Some 3]) 3
      = [Some 4, None]"
    by code_simp+
  from window_statistics_defined_values [OF w h3]
    window_statistics_defined_values [OF w h0]
    window_statistics_defined_values [OF w g2]
    window_statistics_defined_values [OF w g3]
  show ?thesis
    by (simp add: Let_def observed_Cons observed_Nil v2 v3 u2 u3)
qed

section \<open>Expanding window statistics\<close>

text \<open>
  Claim C5 reads: the expanding fields of row \<open>i\<close> are the statistics of the
  values at the rows \<open>0 .. i - 1\<close>, and on the five temperatures the expanding
  mean at index 4 is 18.0. The cell reports 17.56 at index 4, the mean of all
  five values.
\<close>

theorem expanding_mean_counterexample:
  "field (expanding_cell temps5) ''mean'' 4 = Inr (Some 17.56)
   \<and> spec_expanding_window temps5 4 = [Some 20.7, Some 17.9, Some 18.8, Some 14.6]
   \<and> skipna mean (spec_expanding_window temps5 4) = Some 18
   \<and> field (expanding_cell temps5) ''mean'' 4
        \<noteq> Inr (skipna mean (spec_expanding_window temps5 4))"
proof -
  have a: "field (expanding_cell temps5) ''mean'' 4 = Inr (Some 17.56)"
    by code_simp
  have b: "spec_expanding_window temps5 4 = [Some 20.7, Some 17.9, Some 18.8, Some 14.6]"
    by code_simp
  have c: "skipna mean (spec_expanding_window temps5 4) = Some 18"
    by code_simp
  from a b c show ?thesis by simp
qed

text \<open>
  Claim C5, as the cell has it. The expanding fields of row \<open>i\<close> are the
  statistics of the defined values at the rows \<open>0 .. i\<close>, the row itself
  included, and the row's target is the value at \<open>i + 1\<close> (undefined in the
  last row): the fields are taken over every row before the row's target. On
  the five temperatures the mean of 20.7, 17.9, 18.8, 14.6, which is 18,
  stands at index 3.
\<close>

theorem expanding_fields:
  assumes "i < length temps"
  shows "field (expanding_cell temps) ''min'' i
           = Inr (skipna minimum (spec_expanding_window temps (i + 1)))
       \<and> field (expanding_cell temps) ''mean'' i
           = Inr (skipna mean (spec_expanding_window temps (i + 1)))
       \<and> field (expanding_cell temps) ''max'' i
           = Inr (skipna maximum (spec_expanding_window temps (i + 1)))
       \<and> field (expanding_cell temps) ''t+1'' i
           = Inr (if i + 1 < length temps then temps ! (i + 1) else None)
       \<and> field (expanding_cell temps5) ''mean'' 3 = Inr (Some 18)
       \<and> spec_expanding_window temps5 (3 + 1) = [Some 20.7, Some 17.9, Some 18.8, Some 14.6]"
proof -
  have e: "expanding stat temps ! i = skipna stat (spec_expanding_window temps (i + 1))"
    for stat
    using assms by (simp only: expanding_nth_skipna spec_expanding_window_def)
  have f: "field (expanding_cell temps) ''min'' i = Inr (expanding minimum temps ! i)"
      "field (expanding_cell temps) ''mean'' i = Inr (expanding mean temps ! i)"
      "field (expanding_cell temps) ''max'' i = Inr (expanding maximum temps ! i)"
      "field (expanding_cell temps) ''t+1'' i = Inr (shift (- 1) temps ! i)"
    using assms by (simp_all add: field_def expanding_cell_eq length_expanding length_shift)
  have "shift (- int 1) temps ! i = (if i + 1 < length temps then temps ! (i + 1) else None)"
    using assms by (rule shift_nth_up)
  then have t: "shift (- 1) temps ! i = (if i + 1 < length temps then temps ! (i + 1) else None)"
    by simp
  have a: "field (expanding_cell temps5) ''mean'' 3 = Inr (Some 18)"
    by code_simp
  have b: "spec_expanding_window temps5 (3 + 1) = [Some 20.7, Some 17.9, Some 18.8, Some 14.6]"
    by code_simp
  show ?thesis
    unfolding f e t using a b by (intro conjI refl)
qed

theorem expanding_fields_witness:
  "field (expanding_cell temps5) ''min'' 4 = Inr (Some 14.6)
   \<and> field (expanding_cell temps5) ''mean'' 4 = Inr (Some 17.56)
   \<and> field (expanding_cell temps5) ''max'' 4 = Inr (Some 20.7)
   \<and> field (expanding_cell temps5) ''t+1'' 4 = Inr None
   \<and> field (expanding_cell temps5) ''t+1'' 3 = Inr (Some 15.8)"
proof -
  have h4: "4 < length temps5" and h3: "3 < length temps5"
    by (simp_all add: temps5_def)
  note a = expanding_fields [OF h4] and b = expanding_fields [OF h3]
  note a1 = a [THEN conjunct1]
    and a2 = a [THEN conjunct2, THEN conjunct1]
    and a3 = a [THEN conjunct2, THEN conjunct2, THEN conjunct1]
    and a4 = a [THEN conjunct2, THEN conjunct2, THEN conjunct2, THEN conjunct1]
    and b4 = b [THEN conjunct2, THEN conjunct2, THEN conjunct2, THEN conjunct1]
  show ?thesis
    unfolding a1 a2 a3 a4 b4 by code_simp
qed

section \<open>The target column\<close>

text \<open>
  Claim C7 reads: with a target offset of \<open>-1\<close> the target of row \<open>i\<close> is the
  value at \<open>i\<close>, it is undefined for \<open>i = 0\<close>, and in general it is the value
  at \<open>i + target_offset\<close>. In the single-lag cell the target of row 0 is 20.7,
  not undefined, and the target of row 1 is 17.9, not the value 20.7 at
  \<open>1 + (-1)\<close>.
\<close>

theorem target_offset_counterexample:
  "field (lag1_cell temps3) ''t+1'' 0 = Inr (Some 20.7)
   \<and> spec_target (- 1) temps3 0 = None
   \<and> field (lag1_cell temps3) ''t+1'' 1 = Inr (Some 17.9)
   \<and> spec_target (- 1) temps3 1 = Some 20.7
   \<and> field (lag1_cell temps3) ''t+1'' 0 \<noteq> Inr (spec_target (- 1) temps3 0)"
proof -
  have a: "field (lag1_cell temps3) ''t+1'' 0 = Inr (Some 20.7)"
    by code_simp
  have b: "spec_target (- 1) temps3 0 = None"
    by code_simp
  have c: "field (lag1_cell temps3) ''t+1'' 1 = Inr (Some 17.9)"
    by code_simp
  have d: "spec_target (- 1) temps3 1 = Some 20.7"
    by code_simp
  from a b c d show ?thesis by simp
qed

text \<open>
  Claim C7, as the cells have it. In the single-lag cell the target of row \<open>i\<close>
  is the value at \<open>i\<close> (an offset of 0), also for \<open>i = 0\<close>; what is undefined in
  row 0 is the lag field. On 20.7, 17.9, 18.8 the rows are (NaN, 20.7),
  (20.7, 17.9), (17.9, 18.8). The lag and rolling cells have the same target
  column; the expanding cell has the offset 1. In general a target column
  \<^verbatim>\<open>temps.shift(-d)\<close> holds at row \<open>i\<close> the value at \<open>i + d\<close> when that row exists
  and is undefined otherwise.
\<close>

theorem target_fields:
  assumes "i < length temps"
  shows "map (iloc (lag1_cell temps3)) [0, 1, 2]
           = [[None, Some 20.7], [Some 20.7, Some 17.9], [Some 17.9, Some 18.8]]
       \<and> field (lag1_cell temps) ''t+1'' i = Inr (temps ! i)
       \<and> field (lag1_cell temps) ''t-1'' 0 = Inr None
       \<and> field (lag1_cell temps) ''t+1'' 0 = Inr (temps ! 0)
       \<and> field (lag3_cell temps) ''t+1'' i = Inr (temps ! i)
       \<and> field (rolling_mean_cell temps) ''t+1'' i = Inr (temps ! i)
       \<and> field (rolling_stats_cell W temps) ''t+1'' i = Inr (temps ! i)
       \<and> field (expanding_cell temps) ''t+1'' i = Inr (spec_target 1 temps i)
       \<and> shift (- d) temps ! i = spec_target d temps i
       \<and> spec_target 0 temps i = temps ! i"
proof -
  from assms have z: "0 < length temps" by (cases temps) simp_all
  have r: "map (iloc (lag1_cell temps3)) [0, 1, 2]
      = [[None, Some 20.7], [Some 20.7, Some 17.9], [Some 17.9, Some 18.8]]"
    by code_simp
  have t1: "field (lag1_cell temps) ''t+1'' i = Inr (temps ! i)"
    using assms by (simp add: field_def lag1_cell_eq)
  have l0: "field (lag1_cell temps) ''t-1'' 0 = Inr None"
    using z shift_nth_down [OF z, of 1] by (simp add: field_def lag1_cell_eq length_shift)
  have t0: "field (lag1_cell temps) ''t+1'' 0 = Inr (temps ! 0)"
    using z by (simp add: field_def lag1_cell_eq)
  have t3: "field (lag3_cell temps) ''t+1'' i = Inr (temps ! i)"
    using assms by (simp add: field_def lag3_cell_eq)
  have tm: "field (rolling_mean_cell temps) ''t+1'' i = Inr (temps ! i)"
    using assms by (simp add: field_def rolling_mean_cell_eq)
  have ts: "field (rolling_stats_cell W temps) ''t+1'' i = Inr (temps ! i)"
    using assms by (simp add: field_def rolling_stats_cell_eq)
  have "field (expanding_cell temps) ''t+1'' i = Inr (shift (- 1) temps ! i)"
    using assms by (simp add: field_def expanding_cell_eq length_shift)
  with shift_nth_int [OF assms, of 1]
  have te: "field (expanding_cell temps) ''t+1'' i = Inr (spec_target 1 temps i)"
    by simp
  have sd: "shift (- d) temps ! i = spec_target d temps i"
    using assms by (rule shift_nth_int)
  have s0: "spec_target 0 temps i = temps ! i"
    using assms by (simp add: spec_target_def)
  from r t1 l0 t0 t3 tm ts te sd s0 show ?thesis by (intro conjI)
qed

theorem target_fields_witness:
  "field (lag1_cell temps5) ''t+1'' 2 = Inr (Some 18.8)
   \<and> field (lag1_cell temps5) ''t-1'' 0 = Inr None
   \<and> field (lag1_cell temps5) ''t+1'' 0 = Inr (Some 20.7)
   \<and> field (expanding_cell temps5) ''t+1'' 2 = Inr (Some 14.6)
   \<and> shift (- (- 1)) temps5 ! 2 = Some 17.9
   \<and> shift (- 3) temps5 ! 2 = None"
proof -
  have h2: "2 < length temps5" by (simp add: temps5_def)
  note a = target_fields [OF h2, of 3 "- 1"] and b = target_fields [OF h2, of 3 3]
  note a2 = a [THEN conjunct2, THEN conjunct1]
    and a3 = a [THEN conjunct2, THEN conjunct2, THEN conjunct1]
    and a4 = a [THEN conjunct2, THEN conjunct2, THEN conjunct2, THEN conjunct1]
    and a8 = a [THEN conjunct2, THEN conjunct2, THEN conjunct2, THEN conjunct2,
      THEN conjunct2, THEN conjunct2, THEN conjunct2, THEN conjunct1]
    and a9 = a [THEN conjunct2, THEN conjunct2, THEN conjunct2, THEN conjunct2,
      THEN conjunct2, THEN conjunct2, THEN conjunct2, THEN conjunct2, THEN conjunct1]
    and b9 = b [THEN conjunct2, THEN conjunct2, THEN conjunct2, THEN conjunct2,
      THEN conjunct2, THEN conjunct2, THEN conjunct2, THEN conjunct2, THEN conjunct1]
  show ?thesis
    unfolding a2 a3 a4 a8 a9 b9 by code_simp
qed

section \<open>The shape of the frames\<close>

text \<open>
  Claim C6. For every non-empty sequence and every width, each cell returns
  a frame with exactly one row per index of the sequence: every column has the
  length of the sequence. The rows are in the order of the input (the target
  column of the lag and rolling cells is the sequence itself), the column
  names are the fixed names the cell assigns and do not depend on the data,
  and a row whose lookbacks fall before the start is kept with undefined
  placeholders: row 0 of the three-lag cell is (NaN, NaN, NaN, first value).
\<close>

theorem cells_one_row_per_index:
  assumes "temps \<noteq> []"
  shows "nrows (lag1_cell temps) = length temps
       \<and> nrows (lag3_cell temps) = length temps
       \<and> nrows (rolling_mean_cell temps) = length temps
       \<and> nrows (rolling_stats_cell W temps) = length temps
       \<and> nrows (expanding_cell temps) = length temps
       \<and> map (length \<circ> snd) (lag1_cell temps) = [length temps, length temps]
       \<and> map (length \<circ> snd) (lag3_cell temps) = [length temps, length temps, length temps, length temps]
       \<and> map (length \<circ> snd) (rolling_mean_cell temps) = [length temps, length temps]
       \<and> map (length \<circ> snd) (rolling_stats_cell W temps) = [length temps, length temps, length temps, length temps]
       \<and> map (length \<circ> snd) (expanding_cell temps) = [length temps, length temps, length temps, length temps]
       \<and> map fst (lag1_cell temps) = [''t-1'', ''t+1'']
       \<and> map fst (lag3_cell temps) = [''t-3'', ''t-2'', ''t-1'', ''t+1'']
       \<and> map fst (rolling_mean_cell temps) = [''mean(t-2,t-1)'', ''t+1'']
       \<and> map fst (rolling_stats_cell W temps) = [''min'', ''mean'', ''max'', ''t+1'']
       \<and> map fst (expanding_cell temps) = [''min'', ''mean'', ''max'', ''t+1'']
       \<and> map_of (lag1_cell temps) ''t+1'' = Some temps
       \<and> map_of (lag3_cell temps) ''t+1'' = Some temps
       \<and> map_of (rolling_mean_cell temps) ''t+1'' = Some temps
       \<and> map_of (rolling_stats_cell W temps) ''t+1'' = Some temps
       \<and> iloc (lag3_cell temps) 0 = [None, None, None, temps ! 0]"
proof -
  from assms have z: "0 < length temps" by simp
  have n1: "nrows (lag1_cell temps) = length temps"
    by (simp add: nrows_def lag1_cell_eq length_shift)
  have n2: "nrows (lag3_cell temps) = length temps"
    by (simp add: nrows_def lag3_cell_eq length_shift)
  have n3: "nrows (rolling_mean_cell temps) = length temps"
    by (simp add: nrows_def rolling_mean_cell_eq length_rolling length_shift)
  have n4: "nrows (rolling_stats_cell W temps) = length temps"
    by (simp add: nrows_def rolling_stats_cell_eq length_rolling length_shift)
  have n5: "nrows (expanding_cell temps) = length temps"
    by (simp add: nrows_def expanding_cell_eq length_expanding length_shift)
  have l1: "map (length \<circ> snd) (lag1_cell temps) = [length temps, length temps]"
    by (simp add: lag1_cell_eq length_shift)
  have l2: "map (length \<circ> snd) (lag3_cell temps) = [length temps, length temps, length temps, length temps]"
    by (simp add: lag3_cell_eq length_shift)
  have l3: "map (length \<circ> snd) (rolling_mean_cell temps) = [length temps, length temps]"
    by (simp add: rolling_mean_cell_eq length_rolling length_shift)
  have l4: "map (length \<circ> snd) (rolling_stats_cell W temps) = [length temps, length temps, length temps, length temps]"
    by (simp add: rolling_stats_cell_eq length_rolling length_shift)
  have l5: "map (length \<circ> snd) (expanding_cell temps) = [length temps, length temps, length temps, length temps]"
    by (simp add: expanding_cell_eq length_expanding length_shift)
  have f1: "map fst (lag1_cell temps) = [''t-1'', ''t+1'']"
    by (simp add: lag1_cell_eq)
  have f2: "map fst (lag3_cell temps) = [''t-3'', ''t-2'', ''t-1'', ''t+1'']"
    by (simp add: lag3_cell_eq)
  have f3: "map fst (rolling_mean_cell temps) = [''mean(t-2,t-1)'', ''t+1'']"
    by (simp add: rolling_mean_cell_eq)
  have f4: "map fst (rolling_stats_cell W temps) = [''min'', ''mean'', ''max'', ''t+1'']"
    by (simp add: rolling_stats_cell_eq)
  have f5: "map fst (expanding_cell temps) = [''min'', ''mean'', ''max'', ''t+1'']"
    by (simp add: expanding_cell_eq)
  have m1: "map_of (lag1_cell temps) ''t+1'' = Some temps"
    by (simp add: lag1_cell_eq)
  have m2: "map_of (lag3_cell temps) ''t+1'' = Some temps"
    by (simp add: lag3_cell_eq)
  have m3: "map_of (rolling_mean_cell temps) ''t+1'' = Some temps"
    by (simp add: rolling_mean_cell_eq)
  have m4: "map_of (rolling_stats_cell W temps) ''t+1'' = Some temps"
    by (simp add: rolling_stats_cell_eq)
  have r0: "iloc (lag3_cell temps) 0 = [None, None, None, temps ! 0]"
    using shift_nth_down [OF z, of 1] shift_nth_down [OF z, of 2] shift_nth_down [OF z, of 3]
    by (simp add: iloc_def lag3_cell_eq)
  from n1 n2 n3 n4 n5 l1 l2 l3 l4 l5 f1 f2 f3 f4 f5 m1 m2 m3 m4 r0
  show ?thesis by (intro conjI)
qed

theorem cells_one_row_per_index_witness:
  "nrows (lag3_cell temps5) = 5
   \<and> nrows (rolling_stats_cell 3 temps5) = 5
   \<and> nrows (expanding_cell temps5) = 5
   \<and> map_of (lag3_cell temps5) ''t+1'' = Some temps5
   \<and> iloc (lag3_cell temps5) 0 = [None, None, None, Some 20.7]"
proof -
  have h: "temps5 \<noteq> []" by (simp add: temps5_def)
  note a = cells_one_row_per_index [OF h, of 3]
  have n: "length temps5 = 5" "temps5 ! 0 = Some 20.7" by (simp_all add: temps5_def)
  from a show ?thesis by (simp add: n)
qed

section \<open>Features do not see the target\<close>

text \<open>
  Claim C10. No target leaks into a feature. Take two sequences of the same
  length. In the lag and rolling cells the target of row \<open>i\<close> is the value at
  \<open>i\<close>: if the sequences agree on all rows before \<open>i\<close>, then every lag field
  (any \<open>shift(k)\<close> with \<open>k \<ge> 1\<close>) and every rolling field of row \<open>i\<close> (the
  series is shifted by at least 1 before rolling: shift 1 in the mean cell,
  \<open>W - 1\<close> with \<open>W \<ge> 2\<close> in the width cell) is the same for both, whatever the
  values at \<open>i\<close> and after. In the expanding cell the target of row \<open>i\<close> is the
  value at \<open>i + 1\<close>: if the sequences agree on the rows up to \<open>i\<close>, the
  expanding fields of row \<open>i\<close> are the same.
\<close>

theorem no_target_leakage:
  assumes "length ys = length xs" and "i < length xs"
  shows "(take i ys = take i xs \<longrightarrow>
            (1 \<le> k \<longrightarrow> shift (int k) ys ! i = shift (int k) xs ! i)
          \<and> field (lag1_cell ys) ''t-1'' i = field (lag1_cell xs) ''t-1'' i
          \<and> field (lag3_cell ys) ''t-3'' i = field (lag3_cell xs) ''t-3'' i
          \<and> field (lag3_cell ys) ''t-2'' i = field (lag3_cell xs) ''t-2'' i
          \<and> field (lag3_cell ys) ''t-1'' i = field (lag3_cell xs) ''t-1'' i
          \<and> field (rolling_mean_cell ys) ''mean(t-2,t-1)'' i
               = field (rolling_mean_cell xs) ''mean(t-2,t-1)'' i
          \<and> (2 \<le> W \<longrightarrow>
                field (rolling_stats_cell W ys) ''min'' i
                  = field (rolling_stats_cell W xs) ''min'' i
              \<and> field (rolling_stats_cell W ys) ''mean'' i
                  = field (rolling_stats_cell W xs) ''mean'' i
              \<and> field (rolling_stats_cell W ys) ''max'' i
                  = field (rolling_stats_cell W xs) ''max'' i))
       \<and> (take (i + 1) ys = take (i + 1) xs \<longrightarrow>
              field (expanding_cell ys) ''min'' i = field (expanding_cell xs) ''min'' i
            \<and> field (expanding_cell ys) ''mean'' i = field (expanding_cell xs) ''mean'' i
            \<and> field (expanding_cell ys) ''max'' i = field (expanding_cell xs) ''max'' i)
       \<and> field (lag1_cell xs) ''t+1'' i = Inr (xs ! i)
       \<and> field (lag3_cell xs) ''t+1'' i = Inr (xs ! i)
       \<and> field (rolling_mean_cell xs) ''t+1'' i = Inr (xs ! i)
       \<and> field (rolling_stats_cell W xs) ''t+1'' i = Inr (xs ! i)
       \<and> field (expanding_cell xs) ''t+1'' i
            = Inr (if i + 1 < length xs then xs ! (i + 1) else None)"
proof -
  from assms have iy: "i < length ys" by simp
  have lag: "shift (int k) ys ! i = shift (int k) xs ! i"
    if "take i ys = take i xs" and "1 \<le> k" for k
    using assms that by (rule shift_agree)
  have A: "(1 \<le> k \<longrightarrow> shift (int k) ys ! i = shift (int k) xs ! i)
      \<and> field (lag1_cell ys) ''t-1'' i = field (lag1_cell xs) ''t-1'' i
      \<and> field (lag3_cell ys) ''t-3'' i = field (lag3_cell xs) ''t-3'' i
      \<and> field (lag3_cell ys) ''t-2'' i = field (lag3_cell xs) ''t-2'' i
      \<and> field (lag3_cell ys) ''t-1'' i = field (lag3_cell xs) ''t-1'' i
      \<and> field (rolling_mean_cell ys) ''mean(t-2,t-1)'' i
           = field (rolling_mean_cell xs) ''mean(t-2,t-1)'' i
      \<and> (2 \<le> W \<longrightarrow>
            field (rolling_stats_cell W ys) ''min'' i
              = field (rolling_stats_cell W xs) ''min'' i
          \<and> field (rolling_stats_cell W ys) ''mean'' i
              = field (rolling_stats_cell W xs) ''mean'' i
          \<and> field (rolling_stats_cell W ys) ''max'' i
              = field (rolling_stats_cell W xs) ''max'' i)"
    if t: "take i ys = take i xs"
  proof -
    from lag [OF t, of 1] have s1: "shift 1 ys ! i = shift 1 xs ! i" by simp
    from lag [OF t, of 2] have s2: "shift 2 ys ! i = shift 2 xs ! i" by simp
    from lag [OF t, of 3] have s3: "shift 3 ys ! i = shift 3 xs ! i" by simp
    have l1: "field (lag1_cell ys) ''t-1'' i = field (lag1_cell xs) ''t-1'' i"
      using assms iy s1 by (simp add: field_def lag1_cell_eq length_shift)
    have l3: "field (lag3_cell ys) ''t-3'' i = field (lag3_cell xs) ''t-3'' i"
      "field (lag3_cell ys) ''t-2'' i = field (lag3_cell xs) ''t-2'' i"
      "field (lag3_cell ys) ''t-1'' i = field (lag3_cell xs) ''t-1'' i"
      using assms iy s1 s2 s3 by (simp_all add: field_def lag3_cell_eq length_shift)
    have "rolling 2 mean (shift (int 1) ys) ! i = rolling 2 mean (shift (int 1) xs) ! i"
      using assms t by (rule rolling_shift_agree) simp_all
    then have rm: "field (rolling_mean_cell ys) ''mean(t-2,t-1)'' i
        = field (rolling_mean_cell xs) ''mean(t-2,t-1)'' i"
      using assms iy
      by (simp add: field_def rolling_mean_cell_eq length_rolling length_shift)
    have rs: "field (rolling_stats_cell W ys) ''min'' i
          = field (rolling_stats_cell W xs) ''min'' i
        \<and> field (rolling_stats_cell W ys) ''mean'' i
          = field (rolling_stats_cell W xs) ''mean'' i
        \<and> field (rolling_stats_cell W ys) ''max'' i
          = field (rolling_stats_cell W xs) ''max'' i"
      if w: "2 \<le> W"
    proof -
      from w have e: "int W - 1 = int (W - 1)" and w1: "1 \<le> W" and s: "1 \<le> W - 1"
        by simp_all
      have "rolling W stat (shift (int (W - 1)) ys) ! i
          = rolling W stat (shift (int (W - 1)) xs) ! i" for stat
        using assms t w1 s by (rule rolling_shift_agree)
      then show ?thesis
        using assms iy
        by (simp add: field_def rolling_stats_cell_eq length_rolling length_shift e)
    qed
    from lag [OF t] l1 l3 rm rs show ?thesis by blast
  qed
  have B: "field (expanding_cell ys) ''min'' i = field (expanding_cell xs) ''min'' i
      \<and> field (expanding_cell ys) ''mean'' i = field (expanding_cell xs) ''mean'' i
      \<and> field (expanding_cell ys) ''max'' i = field (expanding_cell xs) ''max'' i"
    if t: "take (i + 1) ys = take (i + 1) xs"
  proof -
    have "expanding stat ys ! i = expanding stat xs ! i" for stat
      using assms t by (rule expanding_agree)
    then show ?thesis
      using assms iy by (simp add: field_def expanding_cell_eq length_expanding)
  qed
  have t1: "field (lag1_cell xs) ''t+1'' i = Inr (xs ! i)"
    using assms by (simp add: field_def lag1_cell_eq)
  have t3: "field (lag3_cell xs) ''t+1'' i = Inr (xs ! i)"
    using assms by (simp add: field_def lag3_cell_eq)
  have tm: "field (rolling_mean_cell xs) ''t+1'' i = Inr (xs ! i)"
    using assms by (simp add: field_def rolling_mean_cell_eq)
  have ts: "field (rolling_stats_cell W xs) ''t+1'' i = Inr (xs ! i)"
    using assms by (simp add: field_def rolling_stats_cell_eq)
  have "shift (- int 1) xs ! i = (if i + 1 < length xs then xs ! (i + 1) else None)"
    using assms(2) by (rule shift_nth_up)
  then have te: "field (expanding_cell xs) ''t+1'' i
      = Inr (if i + 1 < length xs then xs ! (i + 1) else None)"
    using assms by (simp add: field_def expanding_cell_eq length_shift)
  from A B t1 t3 tm ts te show ?thesis by blast
qed

theorem no_target_leakage_witness:
  "take 3 [Some 20.7, Some 17.9, Some 18.8, Some 0, Some 0] = take 3 temps5
   \<and> [Some 20.7, Some 17.9, Some 18.8, Some 0, Some 0] ! 3 \<noteq> temps5 ! 3
   \<and> shift (int 2) [Some 20.7, Some 17.9, Some 18.8, Some 0, Some 0] ! 3
        = shift (int 2) temps5 ! 3
   \<and> field (lag3_cell [Some 20.7, Some 17.9, Some 18.8, Some 0, Some 0]) ''t-1'' 3
        = field (lag3_cell temps5) ''t-1'' 3
   \<and> field (rolling_mean_cell [Some 20.7, Some 17.9, Some 18.8, Some 0, Some 0])
          ''mean(t-2,t-1)'' 3
        = field (rolling_mean_cell temps5) ''mean(t-2,t-1)'' 3
   \<and> field (rolling_stats_cell 2 [Some 20.7, Some 17.9, Some 18.8, Some 0, Some 0]) ''mean'' 3
        = field (rolling_stats_cell 2 temps5) ''mean'' 3
   \<and> field (rolling_stats_cell 2 temps5) ''t+1'' 3 = Inr (temps5 ! 3)
   \<and> take (3 + 1) [Some 20.7, Some 17.9, Some 18.8, Some 14.6, Some 0] = take (3 + 1) temps5
   \<and> [Some 20.7, Some 17.9, Some 18.8, Some 14.6, Some 0] ! 4 \<noteq> temps5 ! 4
   \<and> field (expanding_cell [Some 20.7, Some 17.9, Some 18.8, Some 14.6, Some 0]) ''mean'' 3
        = field (expanding_cell temps5) ''mean'' 3
   \<and> field (expanding_cell temps5) ''t+1'' 3 = Inr (temps5 ! 4)"
proof -
  let ?a = "[Some 20.7, Some 17.9, Some 18.8, Some 0, Some (0::real)]"
  let ?b = "[Some 20.7, Some 17.9, Some 18.8, Some 14.6, Some (0::real)]"
  have la: "length ?a = length temps5" and lb: "length ?b = length temps5"
    and h3: "3 < length temps5"
    by (simp_all add: temps5_def)
  have ta: "take 3 ?a = take 3 temps5" and tb: "take (3 + 1) ?b = take (3 + 1) temps5"
    by (simp_all add: temps5_def)
  have da: "?a ! 3 \<noteq> temps5 ! 3" and db: "?b ! 4 \<noteq> temps5 ! 4"
    by (simp_all add: temps5_def)
  have k: "(1::nat) \<le> 2" and w: "(2::nat) \<le> 2" by simp_all
  have n: "length temps5 = 5"
    by (simp add: temps5_def)
  note A = no_target_leakage [OF la h3, of 2 2] and B = no_target_leakage [OF lb h3, of 2 2]
  from A ta k w have a1: "shift (int 2) ?a ! 3 = shift (int 2) temps5 ! 3"
    and a2: "field (lag3_cell ?a) ''t-1'' 3 = field (lag3_cell temps5) ''t-1'' 3"
    and a3: "field (rolling_mean_cell ?a) ''mean(t-2,t-1)'' 3
        = field (rolling_mean_cell temps5) ''mean(t-2,t-1)'' 3"
    and a4: "field (rolling_stats_cell 2 ?a) ''mean'' 3
        = field (rolling_stats_cell 2 temps5) ''mean'' 3"
    and a5: "field (rolling_stats_cell 2 temps5) ''t+1'' 3 = Inr (temps5 ! 3)"
    by blast+
  from B tb have b1: "field (expanding_cell ?b) ''mean'' 3
        = field (expanding_cell temps5) ''mean'' 3"
    and b2: "field (expanding_cell temps5) ''t+1'' 3
        = Inr (if 3 + 1 < length temps5 then temps5 ! (3 + 1) else None)"
    by blast+
  from b2 have b3: "field (expanding_cell temps5) ''t+1'' 3 = Inr (temps5 ! 4)"
    by (simp add: n)
  from ta da a1 a2 a3 a4 a5 tb db b1 b3 show ?thesis by (intro conjI)
qed

section \<open>What a cell refuses\<close>





end
